theory Spec2Isabelle
  imports Complex_Main "HOL-Library.Sublist"
begin

section \<open>JavaScript values read by the fee resolver\<close>

text \<open>
  The fee table is whatever the HTTP client hands back as \<open>response.data\<close>: a parsed
  JSON document, or a string when the body was not JSON. Property reads can also yield
  \<open>undefined\<close>. Numbers are IEEE doubles in the source; the resolver performs no
  arithmetic on them, so a finite number is represented by the rational it denotes,
  next to \<open>NaN\<close> and the two infinities.
\<close>

datatype jsnum = Fin rat | NaN | PosInfinity | NegInfinity

datatype jsval =
    JUndefined
  | JNull
  | JBool bool
  | JNum jsnum
  | JStr string
  | JArr "jsval list"
  | JObj "(string \<times> jsval) list"

datatype error =
    Error string       \<comment> \<open>\<open>new Error(message)\<close>\<close>
  | TypeError          \<comment> \<open>raised by the runtime; its wording is engine specific\<close>
  | AxiosError string  \<comment> \<open>rejection of the HTTP request (transport failure)\<close>
  | OtherError string string  \<comment> \<open>an error of another class: its name and message\<close>

text \<open>ECMAScript \<open>ToBoolean\<close>, as used by \<open>!x\<close>, \<open>x || y\<close> and \<open>if (x)\<close>.\<close>

fun truthy :: "jsval \<Rightarrow> bool" where
  "truthy JUndefined = False"
| "truthy JNull = False"
| "truthy (JBool b) = b"
| "truthy (JNum n) = (n \<noteq> Fin 0 \<and> n \<noteq> NaN)"
| "truthy (JStr s) = (s \<noteq> [])"
| "truthy (JArr xs) = True"
| "truthy (JObj kvs) = True"

text \<open>
  The property read \<open>v[k]\<close>. The keys used by the resolver are network names and
  order-type names; none of them is an array index, \<open>length\<close> or a member of a
  built-in prototype, so a read on anything but a plain object finds nothing. Reading a
  property of \<open>null\<close> or \<open>undefined\<close> raises a \<open>TypeError\<close>.
\<close>

fun js_get :: "jsval \<Rightarrow> string \<Rightarrow> error + jsval" where
  "js_get JUndefined k = Inl TypeError"
| "js_get JNull k = Inl TypeError"
| "js_get (JObj kvs) k = Inr (case map_of kvs k of None \<Rightarrow> JUndefined | Some v \<Rightarrow> v)"
| "js_get v k = Inr JUndefined"

text \<open>The operator \<open>k in v\<close>: a \<open>TypeError\<close> unless \<open>v\<close> is an object.\<close>

fun js_in :: "string \<Rightarrow> jsval \<Rightarrow> error + bool" where
  "js_in k (JObj kvs) = Inr (map_of kvs k \<noteq> None)"
| "js_in k (JArr xs) = Inr False"
| "js_in k v = Inl TypeError"

definition js_or :: "jsval \<Rightarrow> jsval \<Rightarrow> jsval" where
  "js_or a b = (if truthy a then a else b)"

text \<open>
  \<open>Number(v)\<close>. Strings are parsed and arrays and objects are first turned into
  strings by the language runtime; that part (\<open>StringToNumber\<close> after
  \<open>ToPrimitive\<close>) is the parameter \<open>coerce\<close>.
\<close>

fun js_Number :: "(jsval \<Rightarrow> jsnum) \<Rightarrow> jsval \<Rightarrow> jsnum" where
  "js_Number coerce JUndefined = NaN"
| "js_Number coerce JNull = Fin 0"
| "js_Number coerce (JBool b) = Fin (if b then 1 else 0)"
| "js_Number coerce (JNum n) = n"
| "js_Number coerce v = coerce v"

section \<open>The fee resolver: \<open>getBaseFee\<close>\<close>

text \<open>
  What the resolver does to the outside world, in order: the HTTP request, and in the
  \<open>catch\<close> block the two logging calls.
\<close>

datatype NetworkErrorCode = ETHEREUM_EXTERNAL_ERR

datatype effect =
    AxiosGet string
  | ConsoleError error
  | HandleAxiosErrorResponse error NetworkErrorCode

record EthereumConfig =
  feeConfigUrl :: string

text \<open>
  The collaborators of \<open>getBaseFee\<close>:
  \<^item> \<open>axios_get url\<close> is the outcome of \<open>await axios.get(url)\<close>: the response's
    \<open>data\<close>, or the error the request was rejected with;
  \<^item> \<open>handleAxiosErrorResponse e opts\<close> comes from the logging package. It is not part
    of these sources, so it is a parameter: \<open>None\<close> when the call returns, \<open>Some e'\<close>
    when it raises \<open>e'\<close> itself;
  \<^item> \<open>coerce\<close> is the string and object part of \<open>Number\<close>, see \<open>js_Number\<close>.
\<close>

record io =
  axios_get :: "string \<Rightarrow> error + jsval"
  handleAxiosErrorResponse :: "error \<Rightarrow> NetworkErrorCode \<Rightarrow> error option"
  coerce :: "jsval \<Rightarrow> jsnum"

text \<open>The body of the \<open>try\<close> block: the fetch, the read of the network's entry, the check.\<close>

definition fetchEnvFeeConfig :: "io \<Rightarrow> EthereumConfig \<Rightarrow> string \<Rightarrow> error + jsval" where
  "fetchEnvFeeConfig w config env =
     (case axios_get w (feeConfigUrl config) of
        Inl e \<Rightarrow> Inl e
      | Inr data \<Rightarrow>
          (case js_get data env of
             Inl e \<Rightarrow> Inl e
           | Inr envFeeConfig \<Rightarrow>
               if \<not> truthy envFeeConfig
               then Inl (Error (''Fee config was not found for '' @ env))
               else Inr envFeeConfig))"

text \<open>The \<open>catch\<close> block: log twice, then \<open>throw e\<close> unless the helper raised first.\<close>

definition catchBlock :: "io \<Rightarrow> error \<Rightarrow> error \<times> effect list" where
  "catchBlock w e =
     ((case handleAxiosErrorResponse w e ETHEREUM_EXTERNAL_ERR of
         Some e' \<Rightarrow> e'
       | None \<Rightarrow> e),
      [ConsoleError e, HandleAxiosErrorResponse e ETHEREUM_EXTERNAL_ERR])"

definition getBaseFee ::
  "io \<Rightarrow> EthereumConfig \<Rightarrow> string \<Rightarrow> string \<Rightarrow> (error + jsnum) \<times> effect list" where
  "getBaseFee w config env type =
     (case fetchEnvFeeConfig w config env of
        Inl e \<Rightarrow>
          (Inl (fst (catchBlock w e)), AxiosGet (feeConfigUrl config) # snd (catchBlock w e))
      | Inr envFeeConfig \<Rightarrow>
          (case js_in type envFeeConfig of
             Inl e \<Rightarrow> (Inl e, [AxiosGet (feeConfigUrl config)])
           | Inr False \<Rightarrow>
               (Inl (Error (''Unsupported fee type '' @ type)), [AxiosGet (feeConfigUrl config)])
           | Inr True \<Rightarrow>
               (case js_get envFeeConfig type of
                  Inl e \<Rightarrow> (Inl e, [AxiosGet (feeConfigUrl config)])
                | Inr v \<Rightarrow>
                    (Inr (js_Number (coerce w) (js_or v (JNum (Fin 0)))),
                     [AxiosGet (feeConfigUrl config)]))))"

text \<open>
  The third argument is optional in the source and defaults to the current order-type
  version, a constant of a module outside these sources.
\<close>

definition getBaseFee_default ::
  "string \<Rightarrow> io \<Rightarrow> EthereumConfig \<Rightarrow> string \<Rightarrow> string option \<Rightarrow> (error + jsnum) \<times> effect list" where
  "getBaseFee_default CURRENT_ORDER_TYPE_VERSION w config env type =
     getBaseFee w config env (case type of None \<Rightarrow> CURRENT_ORDER_TYPE_VERSION | Some t \<Rightarrow> t)"

section \<open>The web3 provider: \<open>Web3FunctionCall.send\<close>\<close>

text \<open>
  \<open>a || b\<close> on two optional gas limits: \<open>undefined\<close> and \<open>0\<close> are falsy.
\<close>

definition js_or_gas :: "nat option \<Rightarrow> nat option \<Rightarrow> nat option" where
  "js_or_gas a b = (case a of Some g \<Rightarrow> if g \<noteq> 0 then Some g else b | None \<Rightarrow> b)"

record EthereumSendOptions =
  opt_value :: "int option"
  opt_gas :: "nat option"
  opt_gasPrice :: "int option"
  opt_additionalData :: "string option"

text \<open>
  The argument of \<open>web3.eth.sendTransaction\<close> and of \<open>sendMethod.send\<close>. The gas
  price is passed as the decimal string of the number; the number stands for it here.
\<close>

record TransactionConfig =
  tc_from :: string
  tc_to :: "string option"
  tc_data :: string
  tc_gas :: "nat option"
  tc_value :: "int option"
  tc_gasPrice :: "int option"

record SendOptions =
  so_from :: string
  so_gas :: "nat option"
  so_value :: "int option"
  so_gasPrice :: "int option"

datatype submitted = SendTransaction TransactionConfig | MethodSend SendOptions

record ChainTransaction =
  ct_nonce :: nat

text \<open>
  The node, the contract method and the helpers of the types package, none of which is
  part of these sources:
  \<^item> \<open>eth_getAccounts\<close>, \<open>eth_getTransaction n hash\<close> (the answer to the \<open>n\<close>-th
    request, \<open>None\<close> for \<open>null\<close>), \<open>eth_sendTransaction\<close> and \<open>sendMethod_send\<close>:
    the last two give the outcome of the hash promise and the receipt promise of the
    event emitter they return;
  \<^item> \<open>encodeABI\<close>: the ABI encoding of the call, fixed when the call object is built;
  \<^item> \<open>toAddress\<close>, \<open>toBinary\<close>, \<open>toWord\<close>: the converters to the branded string
    types; each may raise.
\<close>

record 'r Web3 =
  eth_getAccounts :: "error + string list"
  eth_getTransaction :: "nat \<Rightarrow> string \<Rightarrow> error + ChainTransaction option"
  eth_sendTransaction :: "TransactionConfig \<Rightarrow> (error + string) \<times> 'r"
  sendMethod_send :: "SendOptions \<Rightarrow> (error + string) \<times> 'r"
  encodeABI :: "error + string"
  toAddress :: "string option \<Rightarrow> error + string"
  toBinary :: "string \<Rightarrow> error + string"
  toWord :: "string \<Rightarrow> error + string"

record Web3EthereumConfig =
  cfg_from :: "string option"
  cfg_gas :: "nat option"

record 'abi ContractOptions =
  co_address :: "string option"
  co_jsonInterface :: "'abi list"

record ('r, 'abi) Web3Transaction =
  tx_receipt :: 'r
  tx_hash :: string
  tx_data :: string
  tx_nonce :: nat
  tx_from :: string
  tx_to :: "string option"
  tx_contractAbi :: "'abi list option"

definition bindE :: "error + 'a \<Rightarrow> ('a \<Rightarrow> error + 'b) \<Rightarrow> error + 'b" where
  "bindE m f = (case m of Inl e \<Rightarrow> Inl e | Inr x \<Rightarrow> f x)"

text \<open>
  A string that may be missing, tested as a condition: \<open>undefined\<close> and the empty
  string are falsy. The result is the string when it is truthy.
\<close>

definition truthyString :: "string option \<Rightarrow> string option" where
  "truthyString s = (case s of Some a \<Rightarrow> if a \<noteq> [] then Some a else None | None \<Rightarrow> None)"

text \<open>The module-level \<open>getFrom(web3, from)\<close>.\<close>

definition getFrom :: "'r Web3 \<Rightarrow> string option \<Rightarrow> error + string" where
  "getFrom web3 from_opt =
     (case truthyString from_opt of
        Some f \<Rightarrow> Inr f
      | None \<Rightarrow>
          bindE (eth_getAccounts web3) (\<lambda>accounts.
            case truthyString (case accounts of [] \<Rightarrow> None | first # rest \<Rightarrow> Some first) of
              None \<Rightarrow> Inl (Error ''Wallet is not connected'')
            | Some first \<Rightarrow> Inr first))"

text \<open>
  \<open>getTransaction(hash)\<close>: one request, failing when the node knows no such
  transaction, retried by \<open>backOff\<close> up to \<open>numOfAttempts: 10\<close> times; the error of
  the last attempt is the one raised. \<open>getTransaction_from web3 hash k i\<close> makes
  attempt \<open>i\<close> with \<open>k\<close> further attempts left.
\<close>

definition getTransaction_once :: "'r Web3 \<Rightarrow> string \<Rightarrow> nat \<Rightarrow> error + ChainTransaction" where
  "getTransaction_once web3 hash i =
     bindE (eth_getTransaction web3 i hash) (\<lambda>v.
       case v of None \<Rightarrow> Inl (Error ''No transaction found'') | Some t \<Rightarrow> Inr t)"

primrec getTransaction_from ::
  "'r Web3 \<Rightarrow> string \<Rightarrow> nat \<Rightarrow> nat \<Rightarrow> error + ChainTransaction" where
  "getTransaction_from web3 hash 0 i = getTransaction_once web3 hash i"
| "getTransaction_from web3 hash (Suc k) i =
     (case getTransaction_once web3 hash i of
        Inr t \<Rightarrow> Inr t
      | Inl e \<Rightarrow> getTransaction_from web3 hash k (Suc i))"

definition getTransaction :: "'r Web3 \<Rightarrow> string \<Rightarrow> error + ChainTransaction" where
  "getTransaction web3 hash = getTransaction_from web3 hash 9 0"

text \<open>
  What follows the submission in both branches of \<open>send\<close>: await the hash, look the
  transaction up, build the \<open>Web3Transaction\<close> (its arguments are evaluated left to
  right). \<open>data\<close> is the string handed to \<open>toBinary\<close> for the \<open>data\<close> field.
\<close>

definition finishSend ::
  "'r Web3 \<Rightarrow> 'abi ContractOptions \<Rightarrow> (error + string) \<times> 'r \<Rightarrow> error + string \<Rightarrow> string \<Rightarrow>
   'abi list option \<Rightarrow> error + ('r, 'abi) Web3Transaction" where
  "finishSend web3 contract promiEvent data from_addr abi =
     bindE (fst promiEvent) (\<lambda>hashValue.
     bindE (getTransaction web3 hashValue) (\<lambda>tx.
     bindE (toWord web3 hashValue) (\<lambda>h.
     bindE data (\<lambda>d.
     bindE (toBinary web3 d) (\<lambda>b.
     bindE (toAddress web3 (co_address contract)) (\<lambda>to_addr.
       Inr \<lparr>tx_receipt = snd promiEvent, tx_hash = h, tx_data = b, tx_nonce = ct_nonce tx,
            tx_from = from_addr, tx_to = Some to_addr, tx_contractAbi = abi\<rparr>))))))"

text \<open>
  \<open>Web3FunctionCall.send(options)\<close>. The result comes with the list of transactions
  handed to the node, empty when the call failed before submitting one.
\<close>

definition send ::
  "'r Web3 \<Rightarrow> Web3EthereumConfig \<Rightarrow> 'abi ContractOptions \<Rightarrow> EthereumSendOptions \<Rightarrow>
   (error + ('r, 'abi) Web3Transaction) \<times> submitted list" where
  "send web3 config contract options =
     (case bindE (getFrom web3 (cfg_from config)) (\<lambda>f. toAddress web3 (Some f)) of
        Inl e \<Rightarrow> (Inl e, [])
      | Inr from_addr \<Rightarrow>
          (case truthyString (opt_additionalData options) of
             Some ad \<Rightarrow>
               (case bindE (toBinary web3 ad) (\<lambda>b1.
                     bindE (encodeABI web3) (\<lambda>abi.
                     bindE (toBinary web3 abi) (\<lambda>b2. Inr (drop 2 b2, drop 2 b1)))) of
                  Inl e \<Rightarrow> (Inl e, [])
                | Inr (sourceData, additionalData) \<Rightarrow>
                    (let data = ''0x'' @ sourceData @ additionalData;
                         request = \<lparr>tc_from = from_addr, tc_to = co_address contract,
                                    tc_data = data,
                                    tc_gas = js_or_gas (cfg_gas config) (opt_gas options),
                                    tc_value = opt_value options,
                                    tc_gasPrice = opt_gasPrice options\<rparr>
                     in (finishSend web3 contract (eth_sendTransaction web3 request) (Inr data)
                           from_addr (Some (co_jsonInterface contract)),
                         [SendTransaction request])))
           | None \<Rightarrow>
               (let request = \<lparr>so_from = from_addr,
                               so_gas = js_or_gas (cfg_gas config) (opt_gas options),
                               so_value = opt_value options,
                               so_gasPrice = opt_gasPrice options\<rparr>
                in (finishSend web3 contract (sendMethod_send web3 request) (encodeABI web3)
                      from_addr None,
                    [MethodSend request]))))"

section \<open>The order fulfillment dispatcher\<close>

text \<open>
  The code of the dispatcher and of the protocol handlers is missing from the sources,
  which hold their tests only. The definitions of this section and of the next follow
  the specification of the engine.
\<close>

datatype AssetType =
    ERC721 string string
  | ERC1155 string string
  | ERC20 string
  | NativeCoin
  | CollectionWildcard string

record Asset =
  assetType :: AssetType
  asset_value :: int

text \<open>
  Modelled from the spec: an order as the specification's data model lists it, with the
  two per-order facts the dispatcher's contract reads: whether the protocol allows
  partial fills, and the network the order comes from.
\<close>

record Order =
  maker :: string
  taker :: "string option"
  make_asset :: Asset
  take_asset :: Asset
  salt :: nat
  order_start :: nat
  order_end :: nat
  fill :: int
  protocolTag :: string
  protocolData :: string
  allowPartialFills :: bool
  network :: nat

record OriginFee =
  account :: string
  bps :: int

datatype fulfill_error =
    InsufficientFillAmount
  | PartialFillNotSupported
  | ChainMismatch
  | UnsupportedProtocol
  | UnsupportedAssetType
  | OrderExpired
  | FeeConfigMissing
  | FeeNotFound
  | UnsupportedFeeType
  | NetworkError
  | FulfillmentReverted


record PendingTransaction =
  target :: string
  calldata :: string
  pt_value :: int
  metadata :: string

text \<open>The external calls of a fulfillment: its suspension points.\<close>

datatype network_call = FeeScheduleFetch | NonceRead | OrderLookup | TransactionSubmission

type_synonym handler =
  "Order \<Rightarrow> int \<Rightarrow> OriginFee list \<Rightarrow> (fulfill_error + PendingTransaction) \<times> network_call list"

text \<open>
  Modelled from the spec: the dispatcher \<open>fulfill(order, amount, originFees)\<close>, whose code
  is missing from the sources. Its contract lists, in this order: the bounds on the
  amount, the match of the wallet's network with the order's, the partial-fill
  restriction, the lookup of the handler registered for the order's protocol tag, and the
  delegation to that handler. The registry is the closed, partial map \<open>handlers\<close>;
  \<open>walletChain\<close> is the network of the connected wallet. The result comes with the
  network calls made.
\<close>

definition fulfill ::
  "(string \<Rightarrow> handler option) \<Rightarrow> nat \<Rightarrow> Order \<Rightarrow> int \<Rightarrow> OriginFee list \<Rightarrow>
   (fulfill_error + PendingTransaction) \<times> network_call list" where
  "fulfill handlers walletChain order amount originFees =
     (let remaining = asset_value (take_asset order) - fill order in
      if \<not> (0 < amount \<and> amount \<le> remaining) then (Inl InsufficientFillAmount, [])
      else if walletChain \<noteq> network order then (Inl ChainMismatch, [])
      else if \<not> allowPartialFills order \<and> amount < remaining
        then (Inl PartialFillNotSupported, [])
      else case handlers (protocolTag order) of
             None \<Rightarrow> (Inl UnsupportedProtocol, [])
           | Some h \<Rightarrow> h order amount originFees)"

section \<open>Fee arithmetic and Seaport origin fees\<close>

text \<open>
  Modelled from the spec: the basis-point fee utility, missing from the sources:
  multiply, then divide by 10000 with integer floor division.
\<close>

definition computeFee :: "int \<Rightarrow> int \<Rightarrow> int" where
  "computeFee a f = a * f div 10000"

record ConsiderationItem =
  ci_token :: string
  ci_amount :: int
  ci_recipient :: string

text \<open>
  Modelled from the spec: the origin-fee step of the Seaport handler, missing from the
  sources. The consideration is an ordered list of (token, amount, recipient) items; each
  origin fee entry is \<open>amount * bps / 10000\<close> of the amount being paid and is appended as
  an extra consideration item, not folded into the main transfer. \<open>items\<close> is the
  consideration of the order for the quantity being filled, and \<open>takeValue\<close> its total.
\<close>

definition takeValue :: "ConsiderationItem list \<Rightarrow> int" where
  "takeValue items = sum_list (map ci_amount items)"

text \<open>
  Modelled from the spec: the consideration item of one origin fee entry,
  \<open>amount * bps / 10000\<close> for the entry's account, in the order's currency.
\<close>

definition originFeeItem :: "string \<Rightarrow> int \<Rightarrow> OriginFee \<Rightarrow> ConsiderationItem" where
  "originFeeItem tok amount fee =
     \<lparr>ci_token = tok, ci_amount = computeFee amount (bps fee), ci_recipient = account fee\<rparr>"

text \<open>
  Modelled from the spec: the consideration of the fill, the order's items followed by
  the origin fee items.
\<close>

definition seaportConsideration ::
  "string \<Rightarrow> ConsiderationItem list \<Rightarrow> OriginFee list \<Rightarrow> ConsiderationItem list" where
  "seaportConsideration tok items originFees =
     items @ map (originFeeItem tok (takeValue items)) originFees"

text \<open>
  Modelled from the spec: what the buyer pays in all, the sum over the consideration.
\<close>

definition buyerPays :: "ConsiderationItem list \<Rightarrow> int" where
  "buyerPays consideration = sum_list (map ci_amount consideration)"

text \<open>
  The helper \<open>getOpenseaWethTakeData(amount)\<close> of the Seaport test, which builds the
  consideration a test order asks for: 0.975 of the amount for the seller, 0.025 for the
  marketplace's fee recipient. The source computes with arbitrary-precision decimals,
  which are rationals here.
\<close>

record TakeData =
  td_token :: string
  td_amount :: rat
  td_endAmount :: rat
  td_recipient :: "string option"

definition getOpenseaWethTakeData :: "rat \<Rightarrow> TakeData list" where
  "getOpenseaWethTakeData amount =
     (let weth = ''0xc778417e063141139fce010982780140aa0cd5ab'';
          sellerAmount = amount * (975 / 1000);
          feeRecipientAmount = amount * (25 / 1000)
      in [\<lparr>td_token = weth, td_amount = sellerAmount, td_endAmount = sellerAmount,
            td_recipient = None\<rparr>,
          \<lparr>td_token = weth, td_amount = feeRecipientAmount, td_endAmount = feeRecipientAmount,
            td_recipient = Some ''0x8de9c5a032463c561423387a9648c5c7bcc5bc90''\<rparr>])"

section \<open>Fixtures\<close>

text \<open>
  A fee endpoint that serves one table, and fails for every other address; and a logging
  helper that raises a \<open>NetworkError\<close> of its own when it is handed a rejected
  request, and returns for any other error.
\<close>

definition feeTable :: jsval where
  "feeTable = JObj [(''mainnet'', JObj [(''RARIBLE_V2'', JNum (Fin 250)),
                                          (''OPEN_SEA_V1'', JNull),
                                          (''CRYPTO_PUNK'', JStr [])])]"

definition feeServer :: io where
  "feeServer = \<lparr>axios_get = (\<lambda>url. if url = ''https://fees'' then Inr feeTable
                                      else Inl (AxiosError ''Network Error'')),
                handleAxiosErrorResponse =
                  (\<lambda>e code. case e of
                               AxiosError m \<Rightarrow> Some (OtherError ''NetworkError'' m)
                             | _ \<Rightarrow> None),
                coerce = (\<lambda>v. NaN)\<rparr>"

text \<open>
  A node that knows the submitted transaction from the third request on, and converters
  that add the \<open>0x\<close> prefix where it is missing.
\<close>

definition testNode :: "unit Web3" where
  "testNode = \<lparr>eth_getAccounts = Inr [''0xbuyer''],
               eth_getTransaction = (\<lambda>n h. Inr (if n < 2 then None else Some \<lparr>ct_nonce = 7\<rparr>)),
               eth_sendTransaction = (\<lambda>request. (Inr ''0xhash'', ())),
               sendMethod_send = (\<lambda>request. (Inr ''0xhash'', ())),
               encodeABI = Inr ''0xa9059cbb'',
               toAddress = (\<lambda>a. case a of None \<Rightarrow> Inl (Error ''not an address'')
                                  | Some x \<Rightarrow> Inr x),
               toBinary = (\<lambda>x. Inr (if take 2 x = ''0x'' then x else ''0x'' @ x)),
               toWord = (\<lambda>x. Inr x)\<rparr>"

definition testContract :: "string ContractOptions" where
  "testContract = \<lparr>co_address = Some ''0xexchange'', co_jsonInterface = [''matchOrders'']\<rparr>"

definition fillOptions :: EthereumSendOptions where
  "fillOptions = \<lparr>opt_value = Some 5, opt_gas = None, opt_gasPrice = None,
                  opt_additionalData = Some ''0x00000009''\<rparr>"

text \<open>
  A sell order of ten ERC-1155 tokens for native coin on network 4, as the Seaport test
  creates them, and a registry with one handler.
\<close>

definition sellOrder :: "bool \<Rightarrow> string \<Rightarrow> Order" where
  "sellOrder partial tag =
     \<lparr>maker = ''0xseller'', taker = None,
      make_asset = \<lparr>assetType = ERC1155 ''0x1af7'' ''1'', asset_value = 10\<rparr>,
      take_asset = \<lparr>assetType = NativeCoin, asset_value = 10000000000\<rparr>,
      salt = 1, order_start = 0, order_end = 0, fill = 0,
      protocolTag = tag, protocolData = [],
      allowPartialFills = partial, network = 4\<rparr>"

definition seaportStub :: handler where
  "seaportStub order amount originFees =
     (Inr \<lparr>target = ''0xseaport'', calldata = ''0x'', pt_value = amount, metadata = []\<rparr>,
      [FeeScheduleFetch, TransactionSubmission])"

definition registry :: "string \<Rightarrow> handler option" where
  "registry tag = (if tag = ''SEAPORT_V1'' then Some seaportStub else None)"

text \<open>
  The consideration of the order the Seaport test builds from
  \<open>getOpenseaWethTakeData("100000")\<close>: the amounts in base units, an item without a
  recipient going to the seller.
\<close>

definition wethOrderConsideration :: "string \<Rightarrow> ConsiderationItem list" where
  "wethOrderConsideration seller =
     map (\<lambda>t. \<lparr>ci_token = td_token t, ci_amount = \<lfloor>td_amount t\<rfloor>,
               ci_recipient = (case td_recipient t of None \<Rightarrow> seller | Some r \<Rightarrow> r)\<rparr>)
       (getOpenseaWethTakeData 100000)"

section \<open>Properties of the fee resolver\<close>

lemma fetch_absent:
  "axios_get w (feeConfigUrl config) = Inr data \<Longrightarrow> js_get data env = Inr v \<Longrightarrow> \<not> truthy v \<Longrightarrow>
   fetchEnvFeeConfig w config env = Inl (Error (''Fee config was not found for '' @ env))"
  by (simp add: fetchEnvFeeConfig_def)

lemma fetch_present:
  "axios_get w (feeConfigUrl config) = Inr data \<Longrightarrow> js_get data env = Inr v \<Longrightarrow> truthy v \<Longrightarrow>
   fetchEnvFeeConfig w config env = Inr v"
  by (simp add: fetchEnvFeeConfig_def)

lemma fetch_failed:
  "axios_get w (feeConfigUrl config) = Inl e \<Longrightarrow> fetchEnvFeeConfig w config env = Inl e"
  by (simp add: fetchEnvFeeConfig_def)

text \<open>
  C5. Once the table is fetched: when it has no entry for the network, \<open>getBaseFee\<close>
  fails, and with the error whose message names the network unless the logging helper
  raises one of its own; when the network's entry lacks the order type, it fails with the
  error whose message names the type; when the entry has the type, it returns a number,
  and that number is the stored one when a number is stored.
\<close>

theorem getBaseFee_results:
  assumes fetched: "axios_get w (feeConfigUrl config) = Inr data"
  shows
    "(js_get data env = Inr JUndefined
      \<longrightarrow> (\<exists>e. fst (getBaseFee w config env type) = Inl e)
          \<and> (handleAxiosErrorResponse w (Error (''Fee config was not found for '' @ env))
                ETHEREUM_EXTERNAL_ERR = None
              \<longrightarrow> fst (getBaseFee w config env type)
                    = Inl (Error (''Fee config was not found for '' @ env))))
     \<and> (\<forall>entry. js_get data env = Inr (JObj entry) \<and> map_of entry type = None
          \<longrightarrow> fst (getBaseFee w config env type) = Inl (Error (''Unsupported fee type '' @ type)))
     \<and> (\<forall>entry v. js_get data env = Inr (JObj entry) \<and> map_of entry type = Some v
          \<longrightarrow> (\<exists>n. fst (getBaseFee w config env type) = Inr n))
     \<and> (\<forall>entry n. js_get data env = Inr (JObj entry) \<and> map_of entry type = Some (JNum n)
                    \<and> n \<noteq> NaN
          \<longrightarrow> fst (getBaseFee w config env type) = Inr n)"
proof (intro conjI allI impI)
  assume "js_get data env = Inr JUndefined"
  then have missing:
    "fetchEnvFeeConfig w config env = Inl (Error (''Fee config was not found for '' @ env))"
    using fetch_absent [OF fetched, of env JUndefined] by simp
  then show "\<exists>e. fst (getBaseFee w config env type) = Inl e"
    by (simp add: getBaseFee_def)
  assume "handleAxiosErrorResponse w (Error (''Fee config was not found for '' @ env))
            ETHEREUM_EXTERNAL_ERR = None"
  with missing show "fst (getBaseFee w config env type)
                      = Inl (Error (''Fee config was not found for '' @ env))"
    by (simp add: getBaseFee_def catchBlock_def)
next
  fix entry
  assume a: "js_get data env = Inr (JObj entry) \<and> map_of entry type = None"
  then have "fetchEnvFeeConfig w config env = Inr (JObj entry)"
    using fetch_present [OF fetched, of env "JObj entry"] by simp
  with a show "fst (getBaseFee w config env type) = Inl (Error (''Unsupported fee type '' @ type))"
    by (simp add: getBaseFee_def)
next
  fix entry v
  assume a: "js_get data env = Inr (JObj entry) \<and> map_of entry type = Some v"
  then have "fetchEnvFeeConfig w config env = Inr (JObj entry)"
    using fetch_present [OF fetched, of env "JObj entry"] by simp
  with a show "\<exists>n. fst (getBaseFee w config env type) = Inr n"
    by (simp add: getBaseFee_def)
next
  fix entry n
  assume a: "js_get data env = Inr (JObj entry) \<and> map_of entry type = Some (JNum n) \<and> n \<noteq> NaN"
  then have "fetchEnvFeeConfig w config env = Inr (JObj entry)"
    using fetch_present [OF fetched, of env "JObj entry"] by simp
  with a show "fst (getBaseFee w config env type) = Inr n"
    by (simp add: getBaseFee_def js_or_def)
qed

theorem getBaseFee_results_witness:
  "fst (getBaseFee feeServer \<lparr>feeConfigUrl = ''https://fees''\<rparr> ''polygon'' ''RARIBLE_V2'')
     = Inl (Error ''Fee config was not found for polygon'')
   \<and> fst (getBaseFee feeServer \<lparr>feeConfigUrl = ''https://fees''\<rparr> ''mainnet'' ''AUCTION'')
     = Inl (Error ''Unsupported fee type AUCTION'')
   \<and> fst (getBaseFee feeServer \<lparr>feeConfigUrl = ''https://fees''\<rparr> ''mainnet'' ''RARIBLE_V2'')
     = Inr (Fin 250)"
proof -
  let ?c = "\<lparr>feeConfigUrl = ''https://fees''\<rparr>"
  let ?entry = "[(''RARIBLE_V2'', JNum (Fin 250)), (''OPEN_SEA_V1'', JNull),
                 (''CRYPTO_PUNK'', JStr [])]"
  have f: "axios_get feeServer (feeConfigUrl ?c) = Inr feeTable"
    by (simp add: feeServer_def)
  have absent: "js_get feeTable ''polygon'' = Inr JUndefined"
    by (simp add: feeTable_def)
  have quiet: "handleAxiosErrorResponse feeServer
                 (Error (''Fee config was not found for '' @ ''polygon'')) ETHEREUM_EXTERNAL_ERR
               = None"
    by (simp add: feeServer_def)
  have g: "js_get feeTable ''mainnet'' = Inr (JObj ?entry)"
    by (simp add: feeTable_def)
  have no_type: "map_of ?entry ''AUCTION'' = None" by simp
  have has_type: "map_of ?entry ''RARIBLE_V2'' = Some (JNum (Fin 250))" by simp
  have a: "fst (getBaseFee feeServer ?c ''polygon'' ''RARIBLE_V2'')
             = Inl (Error ''Fee config was not found for polygon'')"
    using getBaseFee_results [OF f, of "''polygon''" "''RARIBLE_V2''"] absent quiet by simp
  have b: "fst (getBaseFee feeServer ?c ''mainnet'' ''AUCTION'')
             = Inl (Error ''Unsupported fee type AUCTION'')"
    using getBaseFee_results [OF f, of "''mainnet''" "''AUCTION''"] g no_type by simp
  have c: "fst (getBaseFee feeServer ?c ''mainnet'' ''RARIBLE_V2'') = Inr (Fin 250)"
    using getBaseFee_results [OF f, of "''mainnet''" "''RARIBLE_V2''"] g has_type by simp
  from a b c show ?thesis by simp
qed

text \<open>
  C6, as stated, does not hold of \<open>getBaseFee\<close>: \<open>throw e\<close> comes after the call of
  the logging helper, so a helper that raises on a rejected request replaces the error.
  With such a helper the caller of a failed fetch gets the helper's \<open>NetworkError\<close>, not
  the error the request was rejected with.
\<close>

theorem getBaseFee_rethrow_counterexample:
  "axios_get feeServer (feeConfigUrl \<lparr>feeConfigUrl = ''https://down''\<rparr>)
     = Inl (AxiosError ''Network Error'')
   \<and> fst (getBaseFee feeServer \<lparr>feeConfigUrl = ''https://down''\<rparr> ''mainnet'' ''RARIBLE_V2'')
       = Inl (OtherError ''NetworkError'' ''Network Error'')
   \<and> fst (getBaseFee feeServer \<lparr>feeConfigUrl = ''https://down''\<rparr> ''mainnet'' ''RARIBLE_V2'')
       \<noteq> Inl (AxiosError ''Network Error'')"
  by (simp add: getBaseFee_def fetchEnvFeeConfig_def catchBlock_def feeServer_def)

text \<open>
  C6, amended. When the fetch is rejected with \<open>e\<close>, \<open>getBaseFee\<close> makes that one
  request and no other, logs \<open>e\<close> to the console, passes it to the logging helper under
  the tag \<open>ETHEREUM_EXTERNAL_ERR\<close>, and fails: with the error the helper raises when it
  raises one, and with \<open>e\<close> itself, unchanged, when the helper returns. It never returns
  a fee.
\<close>

theorem getBaseFee_transport_failure:
  assumes failed: "axios_get w (feeConfigUrl config) = Inl e"
  shows "getBaseFee w config env type
         = (Inl (case handleAxiosErrorResponse w e ETHEREUM_EXTERNAL_ERR of
                   Some e' \<Rightarrow> e'
                 | None \<Rightarrow> e),
            [AxiosGet (feeConfigUrl config), ConsoleError e,
             HandleAxiosErrorResponse e ETHEREUM_EXTERNAL_ERR])"
  using fetch_failed [OF failed, of env]
  by (simp add: getBaseFee_def catchBlock_def)

theorem getBaseFee_transport_failure_witness:
  "getBaseFee feeServer \<lparr>feeConfigUrl = ''https://down''\<rparr> ''mainnet'' ''RARIBLE_V2''
     = (Inl (OtherError ''NetworkError'' ''Network Error''),
        [AxiosGet ''https://down'', ConsoleError (AxiosError ''Network Error''),
         HandleAxiosErrorResponse (AxiosError ''Network Error'') ETHEREUM_EXTERNAL_ERR])"
proof -
  let ?c = "\<lparr>feeConfigUrl = ''https://down''\<rparr>"
  have f: "axios_get feeServer (feeConfigUrl ?c) = Inl (AxiosError ''Network Error'')"
    by (simp add: feeServer_def)
  have h: "handleAxiosErrorResponse feeServer (AxiosError ''Network Error'')
             ETHEREUM_EXTERNAL_ERR = Some (OtherError ''NetworkError'' ''Network Error'')"
    by (simp add: feeServer_def)
  from getBaseFee_transport_failure [OF f, of "''mainnet''" "''RARIBLE_V2''"] h
  show ?thesis by simp
qed

text \<open>
  C9. When the network's entry holds the order type with a falsy value (\<open>0\<close>, \<open>null\<close>,
  the empty string, ...), \<open>getBaseFee\<close> does not fail: it returns 0, which is
  \<open>Number\<close> of the \<open>0\<close> that \<open>||\<close> puts in the value's place.
\<close>

theorem getBaseFee_falsy_value:
  assumes fetched: "axios_get w (feeConfigUrl config) = Inr data"
    and entry: "js_get data env = Inr (JObj entry)"
    and stored: "map_of entry type = Some v"
    and falsy: "\<not> truthy v"
  shows "getBaseFee w config env type = (Inr (Fin 0), [AxiosGet (feeConfigUrl config)])
         \<and> js_Number (coerce w) (js_or v (JNum (Fin 0))) = Fin 0"
proof -
  have "fetchEnvFeeConfig w config env = Inr (JObj entry)"
    using fetch_present [OF fetched entry] by simp
  with stored falsy show ?thesis
    by (simp add: getBaseFee_def js_or_def)
qed

theorem getBaseFee_falsy_value_witness:
  "getBaseFee feeServer \<lparr>feeConfigUrl = ''https://fees''\<rparr> ''mainnet'' ''OPEN_SEA_V1''
     = (Inr (Fin 0), [AxiosGet ''https://fees''])
   \<and> getBaseFee feeServer \<lparr>feeConfigUrl = ''https://fees''\<rparr> ''mainnet'' ''CRYPTO_PUNK''
     = (Inr (Fin 0), [AxiosGet ''https://fees''])"
proof -
  let ?c = "\<lparr>feeConfigUrl = ''https://fees''\<rparr>"
  let ?entry = "[(''RARIBLE_V2'', JNum (Fin 250)), (''OPEN_SEA_V1'', JNull),
                 (''CRYPTO_PUNK'', JStr [])]"
  have f: "axios_get feeServer (feeConfigUrl ?c) = Inr feeTable"
    by (simp add: feeServer_def)
  have g: "js_get feeTable ''mainnet'' = Inr (JObj ?entry)"
    by (simp add: feeTable_def)
  have s1: "map_of ?entry ''OPEN_SEA_V1'' = Some JNull" by simp
  have s2: "map_of ?entry ''CRYPTO_PUNK'' = Some (JStr [])" by simp
  have t1: "\<not> truthy JNull" by simp
  have t2: "\<not> truthy (JStr [])" by simp
  from getBaseFee_falsy_value [OF f g s1 t1] getBaseFee_falsy_value [OF f g s2 t2]
  show ?thesis by simp
qed

section \<open>Properties of \<open>Web3FunctionCall.send\<close>\<close>

lemma bindE_Inr: "bindE m f = Inr y \<longleftrightarrow> (\<exists>x. m = Inr x \<and> f x = Inr y)"
  by (cases m) (simp_all add: bindE_def)

lemma finishSend_data:
  assumes "finishSend web3 contract promiEvent data from_addr abi = Inr tx"
  shows "\<exists>d. data = Inr d \<and> toBinary web3 d = Inr (tx_data tx)"
  using assms by (auto simp: finishSend_def bindE_Inr)

lemma testNode_getFrom: "getFrom testNode None = Inr ''0xbuyer''"
  by (simp add: getFrom_def truthyString_def bindE_def testNode_def)

lemma testNode_getTransaction: "getTransaction testNode h = Inr \<lparr>ct_nonce = 7\<rparr>"
  by (simp add: getTransaction_def getTransaction_once_def bindE_def testNode_def
      eval_nat_numeral)

lemma testNode_finish:
  "finishSend testNode testContract (Inr ''0xhash'', ()) (Inr ''0xa9059cbb00000009'')
     ''0xbuyer'' (Some [''matchOrders''])
   = Inr \<lparr>tx_receipt = (), tx_hash = ''0xhash'', tx_data = ''0xa9059cbb00000009'',
          tx_nonce = 7, tx_from = ''0xbuyer'', tx_to = Some ''0xexchange'',
          tx_contractAbi = Some [''matchOrders'']\<rparr>"
  by (simp add: finishSend_def testNode_getTransaction bindE_def)
     (simp add: testNode_def testContract_def)

lemma testNode_send:
  "send testNode \<lparr>cfg_from = None, cfg_gas = Some 1000000\<rparr> testContract fillOptions
   = (Inr \<lparr>tx_receipt = (), tx_hash = ''0xhash'', tx_data = ''0xa9059cbb00000009'',
           tx_nonce = 7, tx_from = ''0xbuyer'', tx_to = Some ''0xexchange'',
           tx_contractAbi = Some [''matchOrders'']\<rparr>,
      [SendTransaction \<lparr>tc_from = ''0xbuyer'', tc_to = Some ''0xexchange'',
                        tc_data = ''0xa9059cbb00000009'', tc_gas = Some 1000000,
                        tc_value = Some 5, tc_gasPrice = None\<rparr>])"
proof -
  have from_addr:
    "bindE (getFrom testNode None) (\<lambda>f. toAddress testNode (Some f)) = Inr ''0xbuyer''"
    by (simp add: testNode_getFrom bindE_def) (simp add: testNode_def)
  have prep: "bindE (toBinary testNode ''0x00000009'') (\<lambda>b1.
                  bindE (encodeABI testNode) (\<lambda>abi.
                  bindE (toBinary testNode abi) (\<lambda>b2. Inr (drop 2 b2, drop 2 b1))))
              = Inr (''a9059cbb'', ''00000009'')"
    by (simp add: bindE_def testNode_def)
  have sent: "eth_sendTransaction testNode r = (Inr ''0xhash'', ())" for r
    by (simp add: testNode_def)
  have contract: "co_address testContract = Some ''0xexchange''"
    "co_jsonInterface testContract = [''matchOrders'']"
    by (simp_all add: testContract_def)
  show ?thesis
    by (simp add: send_def truthyString_def from_addr fillOptions_def prep sent js_or_gas_def
        Let_def testNode_finish contract)
qed

text \<open>
  C10. A \<open>send\<close> that succeeds with (non-empty) \<open>additionalData\<close> has submitted exactly
  one transaction, through \<open>sendTransaction\<close>, whose data is \<open>0x\<close>, then the ABI-encoded
  call without its prefix, then the additional data without its prefix, both as
  \<open>toBinary\<close> returns them; the \<open>data\<close> of the returned transaction is \<open>toBinary\<close> of
  that payload. So when the encoded call and the additional data are binary strings
  already, which \<open>toBinary\<close> leaves as they are, the payload is the encoded call followed
  by the additional data without its \<open>0x\<close>, the returned \<open>data\<close> is that payload, and it
  ends with the additional data.
\<close>

theorem send_additionalData:
  assumes ad: "opt_additionalData options = Some ad" and nonempty: "ad \<noteq> []"
    and ok: "send web3 config contract options = (Inr tx, sent)"
  shows "\<exists>abi src add request.
           encodeABI web3 = Inr abi \<and> toBinary web3 abi = Inr src \<and> toBinary web3 ad = Inr add
         \<and> sent = [SendTransaction request]
         \<and> tc_data request = ''0x'' @ drop 2 src @ drop 2 add
         \<and> toBinary web3 (tc_data request) = Inr (tx_data tx)
         \<and> (src = abi \<and> add = ad \<and> prefix ''0x'' abi
              \<and> toBinary web3 (abi @ drop 2 ad) = Inr (abi @ drop 2 ad)
             \<longrightarrow> tc_data request = abi @ drop 2 ad \<and> tx_data tx = tc_data request
                 \<and> suffix (drop 2 ad) (tx_data tx))"
proof -
  obtain from_addr where fa:
    "bindE (getFrom web3 (cfg_from config)) (\<lambda>f. toAddress web3 (Some f)) = Inr from_addr"
    using ok by (cases "bindE (getFrom web3 (cfg_from config)) (\<lambda>f. toAddress web3 (Some f))")
      (simp_all add: send_def)
  let ?prep = "bindE (toBinary web3 ad) (\<lambda>b1.
                  bindE (encodeABI web3) (\<lambda>abi.
                  bindE (toBinary web3 abi) (\<lambda>b2. Inr (drop 2 b2, drop 2 b1))))"
  obtain sourceData additionalData where prep: "?prep = Inr (sourceData, additionalData)"
    using ok fa ad nonempty by (cases ?prep) (auto simp: send_def truthyString_def)
  then obtain add abi src where parts:
    "toBinary web3 ad = Inr add" "encodeABI web3 = Inr abi" "toBinary web3 abi = Inr src"
    "sourceData = drop 2 src" "additionalData = drop 2 add"
    by (auto simp: bindE_Inr)
  let ?data = "''0x'' @ sourceData @ additionalData"
  let ?request = "\<lparr>tc_from = from_addr, tc_to = co_address contract, tc_data = ?data,
                    tc_gas = js_or_gas (cfg_gas config) (opt_gas options),
                    tc_value = opt_value options, tc_gasPrice = opt_gasPrice options\<rparr>"
  have res: "finishSend web3 contract (eth_sendTransaction web3 ?request) (Inr ?data)
               from_addr (Some (co_jsonInterface contract)) = Inr tx"
    and sent: "sent = [SendTransaction ?request]"
    using ok fa ad nonempty prep by (simp_all add: send_def truthyString_def Let_def)
  from finishSend_data [OF res] have returned: "toBinary web3 ?data = Inr (tx_data tx)" by simp
  have canonical: "tc_data ?request = abi @ drop 2 ad \<and> tx_data tx = tc_data ?request
                   \<and> suffix (drop 2 ad) (tx_data tx)"
    if "src = abi \<and> add = ad \<and> prefix ''0x'' abi
        \<and> toBinary web3 (abi @ drop 2 ad) = Inr (abi @ drop 2 ad)"
  proof -
    from that have "''0x'' @ drop 2 abi = abi" by (auto simp: prefix_def)
    with that parts have d: "?data = abi @ drop 2 ad" by simp
    with that returned have "tx_data tx = abi @ drop 2 ad" by simp
    with d show ?thesis by (simp add: suffix_def)
  qed
  then have imp: "src = abi \<and> add = ad \<and> prefix ''0x'' abi
        \<and> toBinary web3 (abi @ drop 2 ad) = Inr (abi @ drop 2 ad)
       \<longrightarrow> tc_data ?request = abi @ drop 2 ad \<and> tx_data tx = tc_data ?request
           \<and> suffix (drop 2 ad) (tx_data tx)"
    by blast
  have payload: "tc_data ?request = ''0x'' @ drop 2 src @ drop 2 add"
    using parts by simp
  have returned': "toBinary web3 (tc_data ?request) = Inr (tx_data tx)"
    using returned by simp
  from parts(1-3) sent payload returned' imp show ?thesis
    by blast
qed

theorem send_additionalData_witness:
  "\<exists>tx request. send testNode \<lparr>cfg_from = None, cfg_gas = Some 1000000\<rparr> testContract
                   fillOptions
                 = (Inr tx, [SendTransaction request])
     \<and> tc_data request = ''0xa9059cbb00000009''
     \<and> tx_data tx = tc_data request
     \<and> suffix ''00000009'' (tx_data tx)"
proof -
  let ?tx = "\<lparr>tx_receipt = (), tx_hash = ''0xhash'', tx_data = ''0xa9059cbb00000009'',
               tx_nonce = 7, tx_from = ''0xbuyer'', tx_to = Some ''0xexchange'',
               tx_contractAbi = Some [''matchOrders'']\<rparr>"
  have ad: "opt_additionalData fillOptions = Some ''0x00000009''"
    by (simp add: fillOptions_def)
  have ne: "''0x00000009'' \<noteq> []" by simp
  let ?request = "\<lparr>tc_from = ''0xbuyer'', tc_to = Some ''0xexchange'',
                    tc_data = ''0xa9059cbb00000009'', tc_gas = Some 1000000,
                    tc_value = Some 5, tc_gasPrice = None\<rparr>"
  from send_additionalData [OF ad ne testNode_send]
  obtain abi src add request where steps:
    "encodeABI testNode = Inr abi \<and> toBinary testNode abi = Inr src
     \<and> toBinary testNode ''0x00000009'' = Inr add
     \<and> [SendTransaction ?request] = [SendTransaction request]
     \<and> tc_data request = ''0x'' @ drop 2 src @ drop 2 add
     \<and> toBinary testNode (tc_data request) = Inr (tx_data ?tx)
     \<and> (src = abi \<and> add = ''0x00000009'' \<and> prefix ''0x'' abi
          \<and> toBinary testNode (abi @ drop 2 ''0x00000009'')
              = Inr (abi @ drop 2 ''0x00000009'')
         \<longrightarrow> tc_data request = abi @ drop 2 ''0x00000009'' \<and> tx_data ?tx = tc_data request
             \<and> suffix (drop 2 ''0x00000009'') (tx_data ?tx))"
    by (elim exE) (rule that)
  from steps have enc: "encodeABI testNode = Inr abi" and b2: "toBinary testNode abi = Inr src"
    and b1: "toBinary testNode ''0x00000009'' = Inr add"
    by blast+
  from enc have v1: "abi = ''0xa9059cbb''" by (simp add: testNode_def)
  from b2 have v2: "src = abi" by (simp add: v1 testNode_def)
  from b1 have v3: "add = ''0x00000009''" by (simp add: testNode_def)
  note vals = v1 v2 v3
  have fixed: "toBinary testNode (abi @ drop 2 ''0x00000009'') = Inr (abi @ drop 2 ''0x00000009'')"
    by (simp add: vals(1) testNode_def)
  have "prefix ''0x'' abi" by (simp add: vals(1))
  with steps vals fixed
  have "tx_data ?tx = tc_data request \<and> suffix (drop 2 ''0x00000009'') (tx_data ?tx)"
    by blast
  then have "suffix ''00000009'' ''0xa9059cbb00000009''" by auto
  then show ?thesis using testNode_send by simp
qed

section \<open>Properties of the dispatcher\<close>

text \<open>
  C1. A fill amount that is not positive, or that exceeds what remains of the order
  (\<open>take.value - fill\<close>), makes \<open>fulfill\<close> fail with \<open>InsufficientFillAmount\<close>, whatever
  the order, the wallet and the registry are, and with no network call made.
\<close>

theorem fulfill_insufficient_amount:
  assumes "amount \<le> 0 \<or> asset_value (take_asset order) - fill order < amount"
  shows "fulfill handlers walletChain order amount originFees = (Inl InsufficientFillAmount, [])"
  using assms by (auto simp: fulfill_def Let_def)

theorem fulfill_insufficient_amount_witness:
  "fulfill registry 4 (sellOrder True ''SEAPORT_V1'') 0 [] = (Inl InsufficientFillAmount, [])
   \<and> fulfill registry 4 (sellOrder True ''SEAPORT_V1'') 10000000001 []
       = (Inl InsufficientFillAmount, [])
   \<and> fulfill registry 4 (sellOrder True ''SEAPORT_V1'') 10000000000 []
       = seaportStub (sellOrder True ''SEAPORT_V1'') 10000000000 []"
proof -
  let ?order = "sellOrder True ''SEAPORT_V1''"
  have low: "(0::int) \<le> 0 \<or> asset_value (take_asset ?order) - fill ?order < 0" by simp
  have high: "(10000000001::int) \<le> 0
              \<or> asset_value (take_asset ?order) - fill ?order < 10000000001"
    by (simp add: sellOrder_def)
  have full: "fulfill registry 4 ?order 10000000000 [] = seaportStub ?order 10000000000 []"
    by (simp add: fulfill_def sellOrder_def registry_def)
  from fulfill_insufficient_amount [OF low] fulfill_insufficient_amount [OF high] full
  show ?thesis by blast
qed





section \<open>Properties of the fee arithmetic\<close>

text \<open>
  C3. For all integers \<open>a\<close> and \<open>f\<close>, \<open>computeFee a f\<close> is the floor of the exact quotient
  \<open>a * f / 10000\<close>, and \<open>computeFee a 0 = 0\<close>. Halves are rounded down, not to the even
  neighbour: 1.5 gives 1 and 3.5 gives 3.
\<close>

theorem computeFee_floor:
  "computeFee a f = \<lfloor>(of_int a * of_int f) / (10000 :: rat)\<rfloor>
   \<and> computeFee a 0 = 0
   \<and> computeFee 15000 1 = 1 \<and> computeFee 35000 1 = 3"
proof -
  have "\<lfloor>(of_int (a * f) :: rat) / of_int 10000\<rfloor> = a * f div 10000"
    by (rule floor_divide_of_int_eq)
  then show ?thesis by (simp add: computeFee_def)
qed

text \<open>
  C4. Filling a Seaport order with origin fees leaves the order's own consideration
  items as they are and appends one item per origin fee entry, of
  \<open>amount * bps / 10000\<close> for the entry's account, where \<open>amount\<close> is the total of the
  order's items; the buyer pays that total plus the origin fees. For the WETH order of
  the Seaport test (take value 100000) and one origin fee of 1000 basis points, the
  appended item gives its recipient 10000 and the buyer pays 110000.
\<close>

theorem seaport_origin_fees:
  "take (length items) (seaportConsideration tok items originFees) = items
   \<and> drop (length items) (seaportConsideration tok items originFees)
       = map (\<lambda>fee. \<lparr>ci_token = tok, ci_amount = takeValue items * bps fee div 10000,
                       ci_recipient = account fee\<rparr>) originFees
   \<and> buyerPays (seaportConsideration tok items originFees)
       = takeValue items + (\<Sum>fee\<leftarrow>originFees. takeValue items * bps fee div 10000)
   \<and> takeValue (wethOrderConsideration seller) = 100000
   \<and> seaportConsideration ''0xc778417e063141139fce010982780140aa0cd5ab''
         (wethOrderConsideration seller)
         [\<lparr>account = ''0xe954de45ec23bF47078db77f34ef0d905F4D3051'', bps = 1000\<rparr>]
       = wethOrderConsideration seller
         @ [\<lparr>ci_token = ''0xc778417e063141139fce010982780140aa0cd5ab'', ci_amount = 10000,
              ci_recipient = ''0xe954de45ec23bF47078db77f34ef0d905F4D3051''\<rparr>]
   \<and> buyerPays (seaportConsideration ''0xc778417e063141139fce010982780140aa0cd5ab''
         (wethOrderConsideration seller)
         [\<lparr>account = ''0xe954de45ec23bF47078db77f34ef0d905F4D3051'', bps = 1000\<rparr>]) = 110000"
proof -
  have items: "map ci_amount (wethOrderConsideration seller) = [97500, 2500]"
    by (simp add: wethOrderConsideration_def getOpenseaWethTakeData_def Let_def)
  then have total: "takeValue (wethOrderConsideration seller) = 100000"
    by (simp add: takeValue_def)
  have fees: "ci_amount \<circ> originFeeItem tok a = (\<lambda>fee. a * bps fee div 10000)" for a
    by (simp add: fun_eq_iff originFeeItem_def computeFee_def)
  have general: "buyerPays (seaportConsideration tok items originFees)
       = takeValue items + (\<Sum>fee\<leftarrow>originFees. takeValue items * bps fee div 10000)"
    by (simp add: buyerPays_def seaportConsideration_def takeValue_def fees)
  show ?thesis
    using total general items
    by (simp add: seaportConsideration_def originFeeItem_def computeFee_def buyerPays_def)
qed

end
